theory Spec2Isabelle
  imports Main "HOL-Library.Sublist"
begin

section \<open>The Spotlight stub of cwm (scripts/spotlight\_stub.c)\<close>

text \<open>
  The stub reads one command from the file \<^verbatim>\<open>cwm_command.txt\<close> beside the executable,
  sends it to the cwm daemon over a Unix socket and reports a failure through
  \<^verbatim>\<open>osascript\<close>. The model below follows the C source function by function.

  Conventions. A value of type \<open>string\<close> that is passed between the C functions is the
  content of a NUL-terminated C string (the bytes before the terminator). Where raw bytes
  enter a buffer (\<^verbatim>\<open>fgets\<close>, \<^verbatim>\<open>recv\<close>) the buffer is read back as a C string with
  \<open>cstr\<close>. Everything the operating system decides is a field of the record \<open>env\<close>.
  Calls that matter to the outside (the socket system calls, the existence probe and the
  two presentation functions) are recorded, in order, as a list of events.
\<close>

subsection \<open>Constants of the source\<close>

definition MAX_CMD_LEN :: nat where
  "MAX_CMD_LEN = 4096"

definition MAX_PATH_LEN :: nat where
  "MAX_PATH_LEN = 2048"

definition RECV_TIMEOUT_SEC :: nat where
  "RECV_TIMEOUT_SEC = 2"

definition COMMAND_FILE :: string where
  "COMMAND_FILE = ''cwm_command.txt''"

text \<open>The text that follows \<^verbatim>\<open>%s\<close> in \<^verbatim>\<open>SOCKET_PATH_TEMPLATE\<close>.\<close>

definition SOCKET_PATH_TAIL :: string where
  "SOCKET_PATH_TAIL = ''/.cwm/cwm.sock''"

definition NUL :: char where
  "NUL = CHR 0x00"

definition LF :: char where
  "LF = CHR 0x0A"

definition CR :: char where
  "CR = CHR 0x0D"

definition DQ :: char where
  "DQ = CHR 0x22"

definition SP :: char where
  "SP = CHR 0x20"

definition COLON :: char where
  "COLON = CHR 0x3A"

text \<open>The two characters \<^verbatim>\<open>\n\<close> that the C literal \<^verbatim>\<open>"\\n"\<close> denotes.\<close>

definition BSN :: string where
  "BSN = [CHR 0x5C, CHR ''n'']"

definition ERROR_TITLE :: string where
  "ERROR_TITLE = ''cwm Error''"

definition ERROR_MARKER :: string where
  "ERROR_MARKER = DQ # ''error'' @ [DQ]"

definition MESSAGE_MARKER :: string where
  "MESSAGE_MARKER = DQ # ''message'' @ [DQ]"

definition MSG_LOCATE :: string where
  "MSG_LOCATE = ''Failed to locate command file''"

definition MSG_READ :: string where
  "MSG_READ = ''Failed to read command file''"

definition MSG_SOCKET_PATH :: string where
  "MSG_SOCKET_PATH = ''Failed to determine socket path''"

definition MSG_NOT_RUNNING :: string where
  "MSG_NOT_RUNNING =
     ''cwm daemon is not running.'' @ BSN @ BSN @ ''Start it with:'' @ BSN @
     ''  cwm daemon start'' @ BSN @ BSN @ ''Or enable auto-start:'' @ BSN @
     ''  cwm daemon install''"

definition MSG_CONNECT :: string where
  "MSG_CONNECT =
     ''Failed to connect to cwm daemon.'' @ BSN @ BSN @ ''Try restarting it:'' @ BSN @
     ''  cwm daemon stop'' @ BSN @ ''  cwm daemon start''"

definition MSG_GENERIC :: string where
  "MSG_GENERIC = ''Command failed''"

subsection \<open>C strings and the library functions the stub calls\<close>

text \<open>The C string held by a byte buffer: the bytes before the first NUL.\<close>

definition cstr :: "string \<Rightarrow> string" where
  "cstr buf = takeWhile (\<lambda>c. c \<noteq> NUL) buf"

text \<open>
  \<^verbatim>\<open>snprintf(buf, size, ...)\<close>, given the fully formatted text: at most \<open>size - 1\<close>
  bytes are stored before the terminator.
\<close>

definition snprintf :: "nat \<Rightarrow> string \<Rightarrow> string" where
  "snprintf sz formatted = take (sz - 1) formatted"

text \<open>
  \<^verbatim>\<open>fgets(buf, size, f)\<close> on a stream with the remaining bytes \<open>content\<close>: at most
  \<open>size - 1\<close> bytes are read, and reading stops after a line feed, which is stored.
  At end of file with nothing read the call returns \<^verbatim>\<open>NULL\<close>.
\<close>

fun fgets_chars :: "nat \<Rightarrow> string \<Rightarrow> string" where
  "fgets_chars 0 cs = []"
| "fgets_chars (Suc k) [] = []"
| "fgets_chars (Suc k) (c # cs) = (if c = LF then [c] else c # fgets_chars k cs)"

definition fgets :: "nat \<Rightarrow> string \<Rightarrow> string option" where
  "fgets sz content =
     (if content = [] then None else Some (fgets_chars (sz - 1) content))"

text \<open>
  \<^verbatim>\<open>strstr\<close> and \<^verbatim>\<open>strchr\<close> return a pointer into the string: here the suffix that
  starts at the first occurrence, \<open>None\<close> for \<^verbatim>\<open>NULL\<close>.
\<close>

fun strstr :: "string \<Rightarrow> string \<Rightarrow> string option" where
  "strstr [] needle = (if needle = [] then Some [] else None)"
| "strstr (h # hs) needle =
     (if prefix needle (h # hs) then Some (h # hs) else strstr hs needle)"

fun strchr :: "string \<Rightarrow> char \<Rightarrow> string option" where
  "strchr [] c = None"
| "strchr (x # xs) c = (if x = c then Some (x # xs) else strchr xs c)"

subsection \<open>The environment and the observable events\<close>

record env =
  NSGetExecutablePath :: "string option"
  realpath :: "string \<Rightarrow> string option"
  dirname :: "string \<Rightarrow> string"
  fopen_r :: "string \<Rightarrow> string option"
  getenv_HOME :: "string option"
  access_F_OK :: "string \<Rightarrow> int"
  socket_ret :: int
  connect_ret :: int
  send_ret :: int
  recv_ret :: int
  recv_data :: string
  sun_path_size :: nat

text \<open>
  \<open>NSGetExecutablePath\<close> is \<open>None\<close> when \<^verbatim>\<open>_NSGetExecutablePath\<close> returns non-zero;
  \<open>fopen_r p\<close> is the content of the file \<open>p\<close>, \<open>None\<close> when it cannot be opened;
  \<open>getenv_HOME\<close> is \<open>None\<close> when \<^verbatim>\<open>getenv("HOME")\<close> is \<^verbatim>\<open>NULL\<close>;
  \<open>recv_data\<close> are the bytes \<^verbatim>\<open>recv\<close> stored when it returned \<open>recv_ret > 0\<close>;
  \<open>sun_path_size\<close> is \<^verbatim>\<open>sizeof(addr.sun_path)\<close>.
\<close>

datatype event =
    ShowErrorDialog string string
  | ShowNotification string string
  | Access string
  | Socket int
  | Connect int string
  | Setsockopt int nat
  | Send int string
  | Recv int nat
  | Close int

text \<open>
  \<open>ShowErrorDialog title message\<close> and \<open>ShowNotification title message\<close> record the calls
  \<^verbatim>\<open>show_error_dialog(title, message)\<close> and \<^verbatim>\<open>show_notification(title, message)\<close>. Both
  format an \<^verbatim>\<open>osascript\<close> command line and hand it to \<^verbatim>\<open>system\<close>; what the shell makes of
  that line is outside the model. \<open>Access p\<close> is the probe \<^verbatim>\<open>access(p, F_OK)\<close>. The socket
  calls carry the descriptor: \<open>Socket fd\<close> is a call of \<^verbatim>\<open>socket\<close> that returned \<open>fd\<close>,
  \<open>Connect fd path\<close> has the path copied into \<^verbatim>\<open>sun_path\<close>, \<open>Setsockopt fd s\<close> sets the
  receive timeout to \<open>s\<close> seconds, \<open>Send fd bytes\<close> has the bytes handed to \<^verbatim>\<open>send\<close>, and
  \<open>Recv fd n\<close> asks for at most \<open>n\<close> bytes.
\<close>

subsection \<open>The functions of the stub\<close>

definition get_command_file_path :: "env \<Rightarrow> nat \<Rightarrow> string option" where
  "get_command_file_path e out_size =
     (case NSGetExecutablePath e of
        None \<Rightarrow> None
      | Some exe_path \<Rightarrow>
          (let real_path =
                 (case realpath e exe_path of
                    None \<Rightarrow> take (MAX_PATH_LEN - 1) exe_path
                  | Some p \<Rightarrow> p);
               dir = dirname e real_path
           in Some (snprintf out_size (dir @ ''/'' @ COMMAND_FILE))))"

text \<open>The loop that trims the trailing line ending, on the C string in the buffer.\<close>

function trim_newline :: "string \<Rightarrow> string" where
  "trim_newline s =
     (if s \<noteq> [] \<and> (last s = LF \<or> last s = CR) then trim_newline (butlast s) else s)"
  by pat_completeness auto
termination
  by (relation "measure length") auto

definition read_command :: "env \<Rightarrow> string \<Rightarrow> nat \<Rightarrow> string option" where
  "read_command e cmd_path out_size =
     (case fopen_r e cmd_path of
        None \<Rightarrow> None
      | Some content \<Rightarrow>
          (case fgets out_size content of
             None \<Rightarrow> None
           | Some out_cmd \<Rightarrow> Some (trim_newline (cstr out_cmd))))"

definition get_socket_path :: "env \<Rightarrow> nat \<Rightarrow> string option" where
  "get_socket_path e out_size =
     (case getenv_HOME e of
        None \<Rightarrow> None
      | Some home \<Rightarrow> Some (snprintf out_size (home @ SOCKET_PATH_TAIL)))"

text \<open>
  \<open>send_to_daemon\<close> returns the events it caused and \<open>None\<close> for the return value
  \<open>-1\<close>, \<open>Some response\<close> for \<open>0\<close> with the C string left in the response buffer.
\<close>

definition send_to_daemon ::
  "env \<Rightarrow> string \<Rightarrow> string \<Rightarrow> nat \<Rightarrow> event list \<times> string option" where
  "send_to_daemon e socket_path command resp_size =
     (let sock = socket_ret e in
      if sock < 0 then ([Socket sock], None)
      else
        let sun_path = take (sun_path_size e - 1) socket_path in
        if connect_ret e < 0 then
          ([Socket sock, Connect sock sun_path, Close sock], None)
        else
          let cmd_with_newline = snprintf MAX_CMD_LEN (command @ [LF]);
              sent = cstr cmd_with_newline
          in
          if send_ret e < 0 then
            ([Socket sock, Connect sock sun_path, Setsockopt sock RECV_TIMEOUT_SEC,
              Send sock sent, Close sock], None)
          else
            let n = recv_ret e;
                response = (if n > 0 then cstr (take (nat n) (recv_data e)) else [])
            in
            ([Socket sock, Connect sock sun_path, Setsockopt sock RECV_TIMEOUT_SEC,
              Send sock sent, Recv sock (resp_size - 1), Close sock], Some response))"

text \<open>The loop \<^verbatim>\<open>while (*msg_start == ' ' || *msg_start == '"') msg_start++\<close>.\<close>

fun skip_spaces_quotes :: "string \<Rightarrow> string" where
  "skip_spaces_quotes [] = []"
| "skip_spaces_quotes (c # cs) =
     (if c = SP \<or> c = DQ then skip_spaces_quotes cs else c # cs)"

text \<open>
  The last part of \<^verbatim>\<open>main\<close> (the check of the response). After \<^verbatim>\<open>*msg_end = '\0'\<close>
  the C string at \<open>msg_start\<close> is the text between the two pointers.
\<close>

definition check_response :: "string \<Rightarrow> event list \<times> int" where
  "check_response response =
     (if strstr response ERROR_MARKER \<noteq> None then
        (case strstr response MESSAGE_MARKER of
           None \<Rightarrow> ([ShowNotification ERROR_TITLE MSG_GENERIC], 1)
         | Some msg_start0 \<Rightarrow>
             (case strchr msg_start0 COLON of
                None \<Rightarrow> ([ShowNotification ERROR_TITLE MSG_GENERIC], 1)
              | Some msg_colon \<Rightarrow>
                  (let msg_start = skip_spaces_quotes (tl msg_colon) in
                   case strchr msg_start DQ of
                     None \<Rightarrow> ([ShowNotification ERROR_TITLE MSG_GENERIC], 1)
                   | Some msg_end \<Rightarrow>
                       ([ShowNotification ERROR_TITLE
                           (take (length msg_start - length msg_end) msg_start)], 1))))
      else ([], 0))"

definition main :: "env \<Rightarrow> event list \<times> int" where
  "main e =
     (case get_command_file_path e MAX_PATH_LEN of
        None \<Rightarrow> ([ShowErrorDialog ERROR_TITLE MSG_LOCATE], 1)
      | Some cmd_path \<Rightarrow>
     (case read_command e cmd_path MAX_CMD_LEN of
        None \<Rightarrow> ([ShowErrorDialog ERROR_TITLE MSG_READ], 1)
      | Some command \<Rightarrow>
     (case get_socket_path e MAX_PATH_LEN of
        None \<Rightarrow> ([ShowErrorDialog ERROR_TITLE MSG_SOCKET_PATH], 1)
      | Some socket_path \<Rightarrow>
          if access_F_OK e socket_path \<noteq> 0 then
            ([Access socket_path, ShowErrorDialog ERROR_TITLE MSG_NOT_RUNNING], 1)
          else
            (case send_to_daemon e socket_path command MAX_CMD_LEN of
               (evs, None) \<Rightarrow>
                 (Access socket_path # evs @ [ShowErrorDialog ERROR_TITLE MSG_CONNECT], 1)
             | (evs, Some response) \<Rightarrow>
                 (Access socket_path # evs @ fst (check_response response),
                  snd (check_response response))))))"

subsection \<open>Reading a trace\<close>

fun is_presentation :: "event \<Rightarrow> bool" where
  "is_presentation (ShowErrorDialog t m) = True"
| "is_presentation (ShowNotification t m) = True"
| "is_presentation ev = False"

fun is_socket_op :: "event \<Rightarrow> bool" where
  "is_socket_op (ShowErrorDialog t m) = False"
| "is_socket_op (ShowNotification t m) = False"
| "is_socket_op (Access p) = False"
| "is_socket_op ev = True"

fun is_recv :: "event \<Rightarrow> bool" where
  "is_recv (Recv fd n) = True"
| "is_recv ev = False"

text \<open>The descriptors that are open after a trace, starting from the set \<open>fds\<close>.\<close>

fun open_fds :: "event list \<Rightarrow> int set \<Rightarrow> int set" where
  "open_fds [] fds = fds"
| "open_fds (Socket fd # evs) fds = open_fds evs (if fd < 0 then fds else insert fd fds)"
| "open_fds (Close fd # evs) fds = open_fds evs (fds - {fd})"
| "open_fds (ev # evs) fds = open_fds evs fds"

text \<open>An environment in which every step succeeds and the daemon answers \<open>reply\<close>.\<close>

definition sample_env :: "string \<Rightarrow> string \<Rightarrow> env" where
  "sample_env file_content reply =
     \<lparr> NSGetExecutablePath = Some ''/Apps/Focus.app/Contents/MacOS/stub'',
       realpath = (\<lambda>p. Some p),
       dirname = (\<lambda>p. ''/Apps/Focus.app/Contents/MacOS''),
       fopen_r = (\<lambda>p. if p = ''/Apps/Focus.app/Contents/MacOS/cwm_command.txt''
                       then Some file_content else None),
       getenv_HOME = Some ''/Users/me'',
       access_F_OK = (\<lambda>p. if p = ''/Users/me/.cwm/cwm.sock'' then 0 else -1),
       socket_ret = 3,
       connect_ret = 0,
       send_ret = 0,
       recv_ret = int (length reply),
       recv_data = reply,
       sun_path_size = 104 \<rparr>"

text \<open>A command file with one line and a Unix line ending.\<close>

definition sample_file :: string where
  "sample_file = ''focus next'' @ [LF]"

section \<open>Auxiliary facts\<close>

declare trim_newline.simps [simp del]

subsection \<open>C strings and searching\<close>

lemma cstr_id: "NUL \<notin> set s \<Longrightarrow> cstr s = s"
  unfolding cstr_def by (induction s) auto

lemma cstr_no_NUL: "NUL \<notin> set (cstr s)"
  unfolding cstr_def by (induction s) auto


lemma strchr_first: "c \<notin> set a \<Longrightarrow> strchr (a @ c # b) c = Some (c # b)"
  by (induction a) auto

lemma strstr_None_iff: "strstr h n = None \<longleftrightarrow> \<not> sublist n h"
  by (induction h) (auto simp: sublist_Cons_right)

lemma prefix_short:
  "prefix n (a @ b) \<Longrightarrow> length n \<le> length a \<Longrightarrow> prefix n a"
  by (metis prefix_length_prefix prefixI)

lemma strstr_first:
  "n \<noteq> [] \<Longrightarrow> \<not> sublist n (pre @ butlast n) \<Longrightarrow> strstr (pre @ n @ rest) n = Some (n @ rest)"
proof (induction pre)
  case Nil
  then obtain x xs where n: "n = x # xs" by (cases n) auto
  show ?case by (simp add: n)
next
  case (Cons p ps)
  have "butlast n @ [last n] = n"
    using Cons.prems(1) by (rule append_butlast_last_id)
  then have "n @ rest = (butlast n @ [last n]) @ rest"
    by (rule arg_cong [where f = "\<lambda>z. z @ rest", symmetric])
  then have split: "(p # ps) @ n @ rest = ((p # ps) @ butlast n) @ (last n # rest)"
    by simp
  have "\<not> prefix n ((p # ps) @ n @ rest)"
  proof
    assume "prefix n ((p # ps) @ n @ rest)"
    then have "prefix n (((p # ps) @ butlast n) @ (last n # rest))"
      by (simp only: split)
    moreover have "length n \<le> length ((p # ps) @ butlast n)"
      using Cons.prems(1) by (cases n) auto
    ultimately have "prefix n ((p # ps) @ butlast n)"
      by (rule prefix_short)
    then have "sublist n ((p # ps) @ butlast n)"
      by (rule prefix_imp_sublist)
    with Cons.prems(2) show False by simp
  qed
  moreover have "\<not> sublist n (ps @ butlast n)"
    using Cons.prems(2) by (auto simp: sublist_Cons_right)
  ultimately show ?case
    using Cons.IH Cons.prems(1) by simp
qed


subsection \<open>The check of the response\<close>

lemma MESSAGE_MARKER_nonempty: "MESSAGE_MARKER \<noteq> []"
  by (simp add: MESSAGE_MARKER_def)

lemma COLON_notin_MESSAGE_MARKER: "COLON \<notin> set MESSAGE_MARKER"
  by (simp add: MESSAGE_MARKER_def COLON_def DQ_def)

lemma check_response_no_marker:
  "\<not> sublist ERROR_MARKER r \<Longrightarrow> check_response r = ([], 0)"
  by (simp add: check_response_def strstr_None_iff)

lemma check_response_field:
  assumes err: "sublist ERROR_MARKER r"
    and shape: "r = pre @ MESSAGE_MARKER @ COLON # SP # DQ # X @ DQ # post"
    and first: "\<not> sublist MESSAGE_MARKER (pre @ butlast MESSAGE_MARKER)"
    and X: "X \<noteq> []" "hd X \<noteq> SP" "DQ \<notin> set X"
  shows "check_response r = ([ShowNotification ERROR_TITLE X], 1)"
proof -
  obtain x xs where Xc: "X = x # xs"
    using X(1) by (cases X) auto
  have x: "x \<noteq> SP" "x \<noteq> DQ"
    using X(2,3) Xc by auto
  have e: "strstr r ERROR_MARKER \<noteq> None"
    using err by (simp add: strstr_None_iff)
  have m: "strstr r MESSAGE_MARKER = Some (MESSAGE_MARKER @ COLON # SP # DQ # X @ DQ # post)"
    unfolding shape using MESSAGE_MARKER_nonempty first by (rule strstr_first)
  have c: "strchr (MESSAGE_MARKER @ COLON # SP # DQ # X @ DQ # post) COLON
             = Some (COLON # SP # DQ # X @ DQ # post)"
    using COLON_notin_MESSAGE_MARKER by (rule strchr_first)
  have s: "skip_spaces_quotes (X @ DQ # post) = X @ DQ # post"
    using x by (simp add: Xc)
  have q: "strchr (X @ DQ # post) DQ = Some (DQ # post)"
    using X(3) by (rule strchr_first)
  show ?thesis
    using e by (simp add: check_response_def Let_def m c s q)
qed





lemma check_response_cases:
  "check_response r = ([], 0) \<or> (\<exists>m. check_response r = ([ShowNotification ERROR_TITLE m], 1))"
  by (simp add: check_response_def Let_def split: option.splits)

lemma check_response_error:
  "sublist ERROR_MARKER r \<Longrightarrow> \<exists>m. check_response r = ([ShowNotification ERROR_TITLE m], 1)"
  by (simp add: check_response_def Let_def strstr_None_iff split: option.splits)

subsection \<open>Reading the command\<close>

lemma trim_newline_Nil: "trim_newline [] = []"
  by (simp add: trim_newline.simps)

lemma trim_newline_snoc:
  "trim_newline (s @ [c]) = (if c = LF \<or> c = CR then trim_newline s else s @ [c])"
  by (subst trim_newline.simps) simp

lemma trim_newline_eq:
  "trim_newline s = rev (dropWhile (\<lambda>c. c = LF \<or> c = CR) (rev s))"
  by (induction s rule: rev_induct) (auto simp: trim_newline_Nil trim_newline_snoc)

lemma trim_newline_keep:
  "cmd = [] \<or> (last cmd \<noteq> LF \<and> last cmd \<noteq> CR) \<Longrightarrow> trim_newline cmd = cmd"
  by (subst trim_newline.simps) auto

lemma trim_newline_append:
  assumes "\<forall>c \<in> set t. c = LF \<or> c = CR"
    and "cmd = [] \<or> (last cmd \<noteq> LF \<and> last cmd \<noteq> CR)"
  shows "trim_newline (cmd @ t) = cmd"
  using assms(1)
proof (induction t rule: rev_induct)
  case Nil
  show ?case using assms(2) by (simp add: trim_newline_keep)
next
  case (snoc c t)
  have "trim_newline ((cmd @ t) @ [c]) = trim_newline (cmd @ t)"
    using snoc.prems by (simp only: trim_newline_snoc) simp
  then show ?case
    using snoc by simp
qed

lemma fgets_chars_eq:
  "fgets_chars k content =
     take k (takeWhile (\<lambda>c. c \<noteq> LF) content @ (if LF \<in> set content then [LF] else []))"
  by (induction k content rule: fgets_chars.induct) auto

lemma takeWhile_first_line:
  "LF \<notin> set line \<Longrightarrow> rest = [] \<or> hd rest = LF \<Longrightarrow>
     takeWhile (\<lambda>c. c \<noteq> LF) (line @ rest) = line"
  by (induction line) (auto simp: takeWhile_eq_Nil_iff neq_Nil_conv)

lemma read_command_line:
  assumes "fopen_r e p = Some content" and "content \<noteq> []"
    and "length (takeWhile (\<lambda>c. c \<noteq> LF) content) \<le> 4095"
    and "NUL \<notin> set (takeWhile (\<lambda>c. c \<noteq> LF) content)"
  shows "read_command e p MAX_CMD_LEN =
           Some (rev (dropWhile (\<lambda>c. c = LF \<or> c = CR) (rev (takeWhile (\<lambda>c. c \<noteq> LF) content))))"
proof -
  define line where "line = takeWhile (\<lambda>c. c \<noteq> LF) content"
  have len: "length line \<le> 4095" and nul: "NUL \<notin> set line"
    using assms(3,4) by (simp_all add: line_def)
  define buf where "buf = fgets_chars 4095 content"
  have buf: "buf = line \<or> buf = line @ [LF]"
    using len unfolding buf_def fgets_chars_eq line_def [symmetric]
    by (cases "length line = 4095") auto
  have "NUL \<notin> set buf"
    using buf nul by (auto simp: NUL_def LF_def)
  then have c: "cstr buf = buf"
    by (rule cstr_id)
  have t: "trim_newline buf = rev (dropWhile (\<lambda>c. c = LF \<or> c = CR) (rev line))"
    using buf by (auto simp: trim_newline_eq)
  show ?thesis
    using assms(1,2) c t
    by (simp add: read_command_def fgets_def MAX_CMD_LEN_def buf_def line_def)
qed

subsection \<open>Talking to the daemon, and the whole run\<close>

lemma send_to_daemon_ok:
  assumes "0 \<le> socket_ret e" "0 \<le> connect_ret e" "0 \<le> send_ret e"
  shows "send_to_daemon e sp cmd n =
           ([Socket (socket_ret e), Connect (socket_ret e) (take (sun_path_size e - 1) sp),
             Setsockopt (socket_ret e) RECV_TIMEOUT_SEC,
             Send (socket_ret e) (cstr (snprintf MAX_CMD_LEN (cmd @ [LF]))),
             Recv (socket_ret e) (n - 1), Close (socket_ret e)],
            Some (if 0 < recv_ret e then cstr (take (nat (recv_ret e)) (recv_data e)) else []))"
  using assms by (simp add: send_to_daemon_def Let_def)

lemma send_to_daemon_no_presentation:
  "filter is_presentation (fst (send_to_daemon e sp cmd n)) = []"
  by (simp add: send_to_daemon_def Let_def)

lemma sent_bytes_in_range:
  "length cmd \<le> 4094 \<Longrightarrow> NUL \<notin> set cmd \<Longrightarrow>
     cstr (snprintf MAX_CMD_LEN (cmd @ [LF])) = cmd @ [LF]"
  by (simp add: snprintf_def MAX_CMD_LEN_def cstr_id NUL_def LF_def)

lemma sent_bytes_full:
  "length cmd = 4095 \<Longrightarrow> NUL \<notin> set cmd \<Longrightarrow>
     cstr (snprintf MAX_CMD_LEN (cmd @ [LF])) = cmd"
  by (simp add: snprintf_def MAX_CMD_LEN_def cstr_id)

lemma main_after_relay:
  assumes "get_command_file_path e MAX_PATH_LEN = Some cmd_path"
    and "read_command e cmd_path MAX_CMD_LEN = Some command"
    and "get_socket_path e MAX_PATH_LEN = Some socket_path"
    and "access_F_OK e socket_path = 0"
    and "send_to_daemon e socket_path command MAX_CMD_LEN = (evs, Some response)"
  shows "main e = (Access socket_path # evs @ fst (check_response response),
                   snd (check_response response))"
  using assms by (simp add: main_def)

lemma main_no_HOME:
  "getenv_HOME e = None \<Longrightarrow> snd (main e) = 1 \<and> filter is_socket_op (fst (main e)) = []"
  by (simp add: main_def get_socket_path_def split: option.splits)

lemma main_presentations:
  "(snd (main e) = 0 \<and> filter is_presentation (fst (main e)) = []) \<or>
   (snd (main e) = 1 \<and> length (filter is_presentation (fst (main e))) = 1)"
proof (cases "get_command_file_path e MAX_PATH_LEN")
  case None
  then show ?thesis by (simp add: main_def)
next
  case cp: (Some cmd_path)
  show ?thesis
  proof (cases "read_command e cmd_path MAX_CMD_LEN")
    case None
    with cp show ?thesis by (simp add: main_def)
  next
    case rc: (Some command)
    show ?thesis
    proof (cases "get_socket_path e MAX_PATH_LEN")
      case None
      with cp rc show ?thesis by (simp add: main_def)
    next
      case sp: (Some socket_path)
      show ?thesis
      proof (cases "access_F_OK e socket_path = 0")
        case False
        with cp rc sp show ?thesis by (simp add: main_def)
      next
        case acc: True
        obtain evs res where sd: "send_to_daemon e socket_path command MAX_CMD_LEN = (evs, res)"
          by (cases "send_to_daemon e socket_path command MAX_CMD_LEN")
        have np: "filter is_presentation evs = []"
          using send_to_daemon_no_presentation [of e socket_path command MAX_CMD_LEN] sd by simp
        show ?thesis
        proof (cases res)
          case None
          with cp rc sp acc sd np show ?thesis by (simp add: main_def)
        next
          case (Some response)
          have m: "main e = (Access socket_path # evs @ fst (check_response response),
                     snd (check_response response))"
            using cp rc sp acc sd Some by (simp add: main_def)
          from check_response_cases [of response] show ?thesis
            using np by (auto simp: m)
        qed
      qed
    qed
  qed
qed

lemma remediation_start: "sublist ''cwm daemon start'' MSG_NOT_RUNNING"
  by (simp add: MSG_NOT_RUNNING_def BSN_def sublist_code)

lemma remediation_install: "sublist ''cwm daemon install'' MSG_NOT_RUNNING"
  by (simp add: MSG_NOT_RUNNING_def BSN_def sublist_code)

subsection \<open>The sample environment\<close>

lemma sample_cmd_path:
  "get_command_file_path (sample_env f r) MAX_PATH_LEN =
     Some ''/Apps/Focus.app/Contents/MacOS/cwm_command.txt''"
  by (simp add: get_command_file_path_def sample_env_def snprintf_def MAX_PATH_LEN_def
      COMMAND_FILE_def)

lemma sample_read:
  "read_command (sample_env sample_file r) ''/Apps/Focus.app/Contents/MacOS/cwm_command.txt''
     MAX_CMD_LEN = Some ''focus next''"
  by (subst read_command_line [where content = sample_file])
     (simp_all add: sample_env_def sample_file_def LF_def CR_def NUL_def)

lemma sample_socket_path:
  "get_socket_path (sample_env f r) MAX_PATH_LEN = Some ''/Users/me/.cwm/cwm.sock''"
  by (simp add: get_socket_path_def sample_env_def snprintf_def MAX_PATH_LEN_def
      SOCKET_PATH_TAIL_def)

lemma sample_access:
  "access_F_OK (sample_env f r) ''/Users/me/.cwm/cwm.sock'' = 0"
  by (simp add: sample_env_def)

lemma sample_send:
  assumes "NUL \<notin> set r"
  shows "send_to_daemon (sample_env f r) ''/Users/me/.cwm/cwm.sock'' ''focus next'' MAX_CMD_LEN =
     ([Socket 3, Connect 3 ''/Users/me/.cwm/cwm.sock'', Setsockopt 3 RECV_TIMEOUT_SEC,
       Send 3 (''focus next'' @ [LF]), Recv 3 4095, Close 3], Some r)"
proof -
  have "send_to_daemon (sample_env f r) ''/Users/me/.cwm/cwm.sock'' ''focus next'' MAX_CMD_LEN =
     ([Socket 3, Connect 3 (take (104 - 1) ''/Users/me/.cwm/cwm.sock''), Setsockopt 3 RECV_TIMEOUT_SEC,
       Send 3 (cstr (snprintf MAX_CMD_LEN (''focus next'' @ [LF]))), Recv 3 (MAX_CMD_LEN - 1), Close 3],
      Some (if 0 < int (length r) then cstr (take (nat (int (length r))) r) else []))"
    by (subst send_to_daemon_ok) (simp_all add: sample_env_def)
  then show ?thesis
    using assms by (simp add: cstr_id [of r] MAX_CMD_LEN_def snprintf_def cstr_def [of "_ # _"] NUL_def LF_def)
qed

lemma sample_send_empty:
  "send_to_daemon (sample_env f []) ''/Users/me/.cwm/cwm.sock'' ''focus next'' MAX_CMD_LEN =
     ([Socket 3, Connect 3 ''/Users/me/.cwm/cwm.sock'', Setsockopt 3 RECV_TIMEOUT_SEC,
       Send 3 (''focus next'' @ [LF]), Recv 3 4095, Close 3], Some [])"
  by (rule sample_send) simp

lemma access_update_cmd_path:
  "get_command_file_path (e \<lparr> access_F_OK := g \<rparr>) n = get_command_file_path e n"
  by (simp add: get_command_file_path_def Let_def split: option.splits)

lemma access_update_read:
  "read_command (e \<lparr> access_F_OK := g \<rparr>) p n = read_command e p n"
  by (simp add: read_command_def)

lemma access_update_socket_path:
  "get_socket_path (e \<lparr> access_F_OK := g \<rparr>) n = get_socket_path e n"
  by (simp add: get_socket_path_def)

lemma recv_update_cmd_path:
  "get_command_file_path (e \<lparr> recv_ret := k \<rparr>) n = get_command_file_path e n"
  by (simp add: get_command_file_path_def Let_def split: option.splits)

lemma recv_update_read:
  "read_command (e \<lparr> recv_ret := k \<rparr>) p n = read_command e p n"
  by (simp add: read_command_def)

lemma recv_update_socket_path:
  "get_socket_path (e \<lparr> recv_ret := k \<rparr>) n = get_socket_path e n"
  by (simp add: get_socket_path_def)

section \<open>The claims\<close>

subsection \<open>C1: the bytes written to the socket\<close>

text \<open>
  C1 says that for every command of at most 4095 characters the bytes passed to
  \<^verbatim>\<open>send\<close> are the command followed by one line feed. The buffer
  \<^verbatim>\<open>cmd_with_newline\<close> has \<^verbatim>\<open>MAX_CMD_LEN\<close> bytes, as the command buffer has, so a
  command of 4095 characters leaves no room for the line feed and \<^verbatim>\<open>snprintf\<close> cuts
  it off. The theorem runs the stub on the command file whose first line is 4095 times
  the letter a: these 4095 bytes are sent with no line feed after them. Up to 4094
  characters the line feed is sent (\<open>sent_bytes_in_range\<close>).
\<close>

theorem full_buffer_command_sent_without_newline:
  "main (sample_env (replicate 4095 (CHR ''a'') @ [LF]) []) =
     ([Access ''/Users/me/.cwm/cwm.sock'', Socket 3, Connect 3 ''/Users/me/.cwm/cwm.sock'',
       Setsockopt 3 RECV_TIMEOUT_SEC, Send 3 (replicate 4095 (CHR ''a'')), Recv 3 4095, Close 3], 0)"
proof -
  let ?cmd = "replicate 4095 (CHR ''a'')"
  let ?e = "sample_env (?cmd @ [LF]) []"
  have tw: "takeWhile (\<lambda>c. c \<noteq> LF) (?cmd @ [LF]) = ?cmd"
    by (subst takeWhile_append2) (simp_all add: LF_def)
  have dw: "dropWhile (\<lambda>c. c = LF \<or> c = CR) ?cmd = ?cmd"
    by (rule dropWhile_eq_self_iff [THEN iffD2]) (simp add: LF_def CR_def)
  have "read_command ?e ''/Apps/Focus.app/Contents/MacOS/cwm_command.txt'' MAX_CMD_LEN =
          Some (rev (dropWhile (\<lambda>c. c = LF \<or> c = CR) (rev (takeWhile (\<lambda>c. c \<noteq> LF) (?cmd @ [LF])))))"
    by (rule read_command_line) (simp_all add: tw sample_env_def NUL_def)
  then have rc: "read_command ?e ''/Apps/Focus.app/Contents/MacOS/cwm_command.txt'' MAX_CMD_LEN = Some ?cmd"
    by (simp only: tw rev_replicate dw)
  have sent: "cstr (snprintf MAX_CMD_LEN (?cmd @ [LF])) = ?cmd"
    by (rule sent_bytes_full) (simp_all add: NUL_def)
  have sd: "send_to_daemon ?e ''/Users/me/.cwm/cwm.sock'' ?cmd MAX_CMD_LEN =
     ([Socket 3, Connect 3 ''/Users/me/.cwm/cwm.sock'', Setsockopt 3 RECV_TIMEOUT_SEC,
       Send 3 ?cmd, Recv 3 4095, Close 3], Some [])"
    by (subst send_to_daemon_ok) (simp_all add: sample_env_def sent, simp add: MAX_CMD_LEN_def)
  have cr: "check_response [] = ([], 0)"
    by (rule check_response_no_marker) (simp add: ERROR_MARKER_def)
  show ?thesis
    by (subst main_after_relay [OF sample_cmd_path rc sample_socket_path sample_access sd])
       (simp add: cr)
qed

subsection \<open>C2: the socket path\<close>

text \<open>
  C2 says that the socket locator fails when \<^verbatim>\<open>HOME\<close> is unset or empty. The source
  tests the pointer only (\<^verbatim>\<open>if (!home)\<close>): with \<^verbatim>\<open>HOME\<close> set to the empty string
  \<open>get_socket_path\<close> succeeds and yields \<^verbatim>\<open>/.cwm/cwm.sock\<close>.
\<close>

theorem get_socket_path_empty_HOME_counterexample:
  "get_socket_path ((sample_env sample_file []) \<lparr> getenv_HOME := Some [] \<rparr>) MAX_PATH_LEN
     = Some ''/.cwm/cwm.sock''"
  by (simp add: get_socket_path_def snprintf_def MAX_PATH_LEN_def SOCKET_PATH_TAIL_def)

text \<open>
  C2 as amended: \<open>get_socket_path\<close> fails exactly when \<^verbatim>\<open>HOME\<close> is unset, and then the
  process exits with code 1 without any socket operation. When \<^verbatim>\<open>HOME\<close> is set, empty
  or not, it succeeds with the text \<^verbatim>\<open><HOME>/.cwm/cwm.sock\<close> cut to the 2047 bytes the
  path buffer holds, which is the whole text when \<^verbatim>\<open>HOME\<close> has at most 2033 bytes.
\<close>

theorem get_socket_path_fails_only_without_HOME:
  "(get_socket_path e MAX_PATH_LEN = None \<longleftrightarrow> getenv_HOME e = None) \<and>
   (\<forall>home. getenv_HOME e = Some home \<longrightarrow>
      get_socket_path e MAX_PATH_LEN = Some (take 2047 (home @ ''/.cwm/cwm.sock'')) \<and>
      (length home \<le> 2033 \<longrightarrow>
         get_socket_path e MAX_PATH_LEN = Some (home @ ''/.cwm/cwm.sock''))) \<and>
   (getenv_HOME e = None \<longrightarrow>
      snd (main e) = 1 \<and> filter is_socket_op (fst (main e)) = [])"
  using main_no_HOME [of e]
  by (auto simp: get_socket_path_def snprintf_def MAX_PATH_LEN_def SOCKET_PATH_TAIL_def
      split: option.splits)

text \<open>
  C2, witness: the sample environment with \<^verbatim>\<open>HOME=/Users/me\<close>, and the same environment
  with \<^verbatim>\<open>HOME\<close> unset.
\<close>

theorem get_socket_path_fails_only_without_HOME_witness:
  "get_socket_path (sample_env sample_file []) MAX_PATH_LEN = Some ''/Users/me/.cwm/cwm.sock'' \<and>
   get_socket_path ((sample_env sample_file []) \<lparr> getenv_HOME := None \<rparr>) MAX_PATH_LEN = None \<and>
   snd (main ((sample_env sample_file []) \<lparr> getenv_HOME := None \<rparr>)) = 1 \<and>
   filter is_socket_op (fst (main ((sample_env sample_file []) \<lparr> getenv_HOME := None \<rparr>))) = []"
  using get_socket_path_fails_only_without_HOME [of "sample_env sample_file []"]
    get_socket_path_fails_only_without_HOME
      [of "(sample_env sample_file []) \<lparr> getenv_HOME := None \<rparr>"]
  by (simp add: sample_env_def)

subsection \<open>C3: the extracted error message\<close>

text \<open>
  C3 says that from a response with the error marker and a field \<^verbatim>\<open>"message": "X"\<close> the
  text \<open>X\<close> is extracted exactly. The source skips every space and quote character after
  the colon, so a value that starts with a space loses it, and an empty value is skipped
  altogether: with nothing but \<^verbatim>\<open>}\<close> after it, no closing quote is found and the
  generic message is shown.
\<close>

theorem message_value_not_extracted_exactly_counterexample:
  \<open>check_response ''{"error": true, "message": " hi"}'' =
      ([ShowNotification ''cwm Error'' ''hi''], 1) \<and>
   check_response ''{"error": true, "message": ""}'' =
      ([ShowNotification ''cwm Error'' ''Command failed''], 1)\<close>
  by (simp add: check_response_def ERROR_MARKER_def MESSAGE_MARKER_def DQ_def SP_def COLON_def
      ERROR_TITLE_def MSG_GENERIC_def)

text \<open>
  C3 as amended: when the relay succeeded with a response that contains the error marker
  and whose first occurrence of \<^verbatim>\<open>"message"\<close> is followed by \<^verbatim>\<open>: "X"\<close>, where \<open>X\<close> is not
  empty, does not start with a space and contains no quote character, the check of the
  response shows exactly one notification (not a dialog) with the message \<open>X\<close> and the
  process exits with code 1.
\<close>

theorem error_message_extracted:
  assumes "get_command_file_path e MAX_PATH_LEN = Some cmd_path"
    and "read_command e cmd_path MAX_CMD_LEN = Some command"
    and "get_socket_path e MAX_PATH_LEN = Some socket_path"
    and "access_F_OK e socket_path = 0"
    and "send_to_daemon e socket_path command MAX_CMD_LEN = (evs, Some r)"
    and "sublist ERROR_MARKER r"
    and "r = pre @ MESSAGE_MARKER @ COLON # SP # DQ # X @ DQ # post"
    and "\<not> sublist MESSAGE_MARKER (pre @ butlast MESSAGE_MARKER)"
    and "X \<noteq> []" and "hd X \<noteq> SP" and "DQ \<notin> set X"
  shows "check_response r = ([ShowNotification ERROR_TITLE X], 1) \<and>
         main e = (Access socket_path # evs @ [ShowNotification ERROR_TITLE X], 1)"
proof -
  have c: "check_response r = ([ShowNotification ERROR_TITLE X], 1)"
    using assms(6-11) by (rule check_response_field)
  have "main e = (Access socket_path # evs @ fst (check_response r), snd (check_response r))"
    using assms(1-5) by (rule main_after_relay)
  with c show ?thesis by simp
qed

text \<open>
  C3, witness: the daemon answers \<^verbatim>\<open>{"error": true, "message": "No such window"}\<close>.
\<close>

theorem error_message_extracted_witness:
  \<open>check_response ''{"error": true, "message": "No such window"}'' =
     ([ShowNotification ERROR_TITLE ''No such window''], 1) \<and>
   main (sample_env sample_file ''{"error": true, "message": "No such window"}'') =
     (Access ''/Users/me/.cwm/cwm.sock'' #
      [Socket 3, Connect 3 ''/Users/me/.cwm/cwm.sock'', Setsockopt 3 RECV_TIMEOUT_SEC,
       Send 3 (''focus next'' @ [LF]), Recv 3 4095, Close 3] @
      [ShowNotification ERROR_TITLE ''No such window''], 1)\<close>
proof -
  let ?r = \<open>''{"error": true, "message": "No such window"}''\<close>
  have sd: "send_to_daemon (sample_env sample_file ?r) ''/Users/me/.cwm/cwm.sock''
              ''focus next'' MAX_CMD_LEN =
     ([Socket 3, Connect 3 ''/Users/me/.cwm/cwm.sock'', Setsockopt 3 RECV_TIMEOUT_SEC,
       Send 3 (''focus next'' @ [LF]), Recv 3 4095, Close 3], Some ?r)"
    by (rule sample_send) (simp add: NUL_def)
  have err: "sublist ERROR_MARKER ?r"
    by (simp add: ERROR_MARKER_def DQ_def sublist_code)
  have shape: \<open>?r = ''{"error": true, '' @ MESSAGE_MARKER @ COLON # SP # DQ #
                  ''No such window'' @ DQ # ''}''\<close>
    by (simp add: MESSAGE_MARKER_def DQ_def SP_def COLON_def)
  have first: \<open>\<not> sublist MESSAGE_MARKER (''{"error": true, '' @ butlast MESSAGE_MARKER)\<close>
    by (simp add: MESSAGE_MARKER_def DQ_def sublist_code)
  have X: "''No such window'' \<noteq> []" "hd ''No such window'' \<noteq> SP" "DQ \<notin> set ''No such window''"
    by (simp_all add: SP_def DQ_def)
  show ?thesis
    by (rule error_message_extracted [OF sample_cmd_path sample_read sample_socket_path
          sample_access sd err shape first X])
qed

subsection \<open>C4: where the message field is searched\<close>

text \<open>
  C4 says that the message field is searched only after the error marker. The source
  calls \<^verbatim>\<open>strstr(response, "\"message\"")\<close> on the whole response: a message field in
  front of the error marker is found and used.
\<close>

theorem message_before_error_marker_counterexample:
  \<open>check_response ''{"message": "A", "error": true}'' = ([ShowNotification ''cwm Error'' ''A''], 1)\<close>
  by (simp add: check_response_def ERROR_MARKER_def MESSAGE_MARKER_def DQ_def SP_def COLON_def
      ERROR_TITLE_def MSG_GENERIC_def)

text \<open>
  C4 as amended: when the error marker is detected, the message field marker is searched
  from the start of the whole response and its first occurrence is used. In particular a
  field \<^verbatim>\<open>"message": "X"\<close> in front of the error marker (with \<open>X\<close> as in C3) is the one
  shown, whatever follows the error marker.
\<close>

theorem message_field_before_error_marker_is_used:
  assumes "r = pre @ MESSAGE_MARKER @ COLON # SP # DQ # X @ DQ # mid @ ERROR_MARKER @ post"
    and "\<not> sublist MESSAGE_MARKER (pre @ butlast MESSAGE_MARKER)"
    and "X \<noteq> []" and "hd X \<noteq> SP" and "DQ \<notin> set X"
  shows "check_response r = ([ShowNotification ERROR_TITLE X], 1)"
proof -
  have "r = (pre @ MESSAGE_MARKER @ COLON # SP # DQ # X @ DQ # mid) @ ERROR_MARKER @ post"
    by (simp add: assms(1))
  then have err: "sublist ERROR_MARKER r"
    unfolding sublist_def by blast
  have shape: "r = pre @ MESSAGE_MARKER @ COLON # SP # DQ # X @ DQ # (mid @ ERROR_MARKER @ post)"
    by (simp add: assms(1))
  show ?thesis
    using err shape assms(2-5) by (rule check_response_field)
qed

text \<open>
  C4, witness: a response with one message field before the error marker and another
  one after it.
\<close>

theorem message_field_before_error_marker_is_used_witness:
  \<open>check_response ''{"message": "Window not found", "error": true, "message": "other"}'' =
     ([ShowNotification ERROR_TITLE ''Window not found''], 1)\<close>
  by (rule message_field_before_error_marker_is_used
        [where pre = "''{''" and mid = "'', ''" and
           post = \<open>'': true, "message": "other"}''\<close>])
     (simp_all add: MESSAGE_MARKER_def ERROR_MARKER_def DQ_def SP_def COLON_def sublist_code)

subsection \<open>C5: the command reader\<close>

text \<open>
  C5 says that for every command file whose first line has at most 4095 characters the
  reader returns that line without its trailing CR and LF characters and with no other
  character altered. The line is read into a buffer with \<^verbatim>\<open>fgets\<close> and then handled as
  a C string (\<^verbatim>\<open>strlen\<close>), so a NUL byte in the line ends the command: from the file
  with the bytes \<^verbatim>\<open>ab\<close>, NUL, \<^verbatim>\<open>cd\<close>, CR, LF the reader returns \<^verbatim>\<open>ab\<close>.
\<close>

theorem read_command_stops_at_NUL_counterexample:
  "read_command (sample_env (''ab'' @ [NUL] @ ''cd'' @ [CR, LF]) [])
     ''/Apps/Focus.app/Contents/MacOS/cwm_command.txt'' MAX_CMD_LEN = Some ''ab'' \<and>
   ''ab'' \<noteq> ''ab'' @ [NUL] @ ''cd''"
proof -
  have buf: "fgets_chars 4095 (''ab'' @ [NUL] @ ''cd'' @ [CR, LF]) = ''ab'' @ [NUL] @ ''cd'' @ [CR, LF]"
    by (simp add: fgets_chars_eq NUL_def LF_def CR_def)
  have c: "cstr (''ab'' @ [NUL] @ ''cd'' @ [CR, LF]) = ''ab''"
    by (simp add: cstr_def NUL_def)
  have t: "trim_newline ''ab'' = ''ab''"
    by (rule trim_newline_keep) (simp add: LF_def CR_def)
  show ?thesis
    by (simp add: read_command_def fgets_def sample_env_def MAX_CMD_LEN_def buf c t
        del: append.simps)
qed

text \<open>
  C5 as amended: let the command file be readable and not empty, let \<open>line\<close> be its
  first line (the bytes before the first line feed, or the whole file when there is
  none), and let \<open>line\<close> be \<open>cmd\<close> followed by carriage returns only, where \<open>cmd\<close> does not
  end in a carriage return, has at most 4095 characters and no NUL byte. Then
  \<open>read_command\<close> returns exactly \<open>cmd\<close>: the line without its trailing CR and LF
  characters, every other character kept, leading and trailing blanks included. (An
  empty file has no line: \<^verbatim>\<open>fgets\<close> returns \<^verbatim>\<open>NULL\<close> and the reader fails.)
\<close>

theorem read_command_strips_line_ending:
  assumes "fopen_r e p = Some content" and "content \<noteq> []"
    and "content = line @ rest" and "LF \<notin> set line" and "rest = [] \<or> hd rest = LF"
    and "line = cmd @ crs" and "set crs \<subseteq> {CR}" and "cmd = [] \<or> last cmd \<noteq> CR"
    and "length cmd \<le> 4095" and "NUL \<notin> set cmd"
  shows "read_command e p MAX_CMD_LEN = Some cmd"
proof -
  define nl where "nl = (if LF \<in> set content then [LF] else [])"
  have tw: "takeWhile (\<lambda>c. c \<noteq> LF) content = line"
    unfolding assms(3) using assms(4,5) by (rule takeWhile_first_line)
  define t where "t = take (4095 - length cmd) (crs @ nl)"
  have buf: "fgets_chars 4095 content = cmd @ t"
    using assms(9) by (simp add: fgets_chars_eq tw nl_def [symmetric] assms(6) t_def)
  have t_set: "set t \<subseteq> {CR, LF}"
  proof -
    have "set t \<subseteq> set (crs @ nl)"
      unfolding t_def by (rule set_take_subset)
    also have "\<dots> \<subseteq> {CR, LF}"
      using assms(7) by (auto simp: nl_def)
    finally show ?thesis .
  qed
  have "NUL \<notin> set (cmd @ t)"
    using assms(10) t_set by (auto simp: NUL_def CR_def LF_def)
  then have c: "cstr (cmd @ t) = cmd @ t"
    by (rule cstr_id)
  have "LF \<notin> set cmd"
    using assms(4,6) by simp
  then have "cmd = [] \<or> (last cmd \<noteq> LF \<and> last cmd \<noteq> CR)"
    using assms(8) by (metis last_in_set)
  moreover have "\<forall>c \<in> set t. c = LF \<or> c = CR"
    using t_set by auto
  ultimately have tr: "trim_newline (cmd @ t) = cmd"
    by (intro trim_newline_append)
  show ?thesis
    using assms(1,2) by (simp add: read_command_def fgets_def MAX_CMD_LEN_def buf c tr)
qed

text \<open>
  C5, witness: a file that starts with the line \<^verbatim>\<open>"  focus next "\<close>, ended by CR LF.
\<close>

theorem read_command_strips_line_ending_witness:
  "read_command (sample_env (''  focus next '' @ [CR, LF] @ ''second line'') [])
       ''/Apps/Focus.app/Contents/MacOS/cwm_command.txt'' MAX_CMD_LEN = Some ''  focus next ''"
  by (rule read_command_strips_line_ending
        [where content = "''  focus next '' @ [CR, LF] @ ''second line''"
           and line = "''  focus next '' @ [CR]" and rest = "LF # ''second line''"
           and crs = "[CR]"])
     (simp_all add: sample_env_def LF_def CR_def NUL_def)

subsection \<open>C6: one receive call, and no data is not an error\<close>

text \<open>
  C6: when the steps before the relay succeed and \<^verbatim>\<open>socket\<close>, \<^verbatim>\<open>connect\<close> and
  \<^verbatim>\<open>send\<close> succeed, \<open>send_to_daemon\<close> calls \<^verbatim>\<open>recv\<close> exactly once (and so does the
  whole run) and returns success. When \<^verbatim>\<open>recv\<close> returns zero or a negative value, the
  response is the empty string, the process exits with code 0 and shows neither a dialog
  nor a notification.
\<close>

theorem single_recv_and_empty_response_is_success:
  assumes "get_command_file_path e MAX_PATH_LEN = Some cmd_path"
    and "read_command e cmd_path MAX_CMD_LEN = Some command"
    and "get_socket_path e MAX_PATH_LEN = Some socket_path"
    and "access_F_OK e socket_path = 0"
    and "0 \<le> socket_ret e" and "0 \<le> connect_ret e" and "0 \<le> send_ret e"
  shows "length (filter is_recv (fst (send_to_daemon e socket_path command MAX_CMD_LEN))) = 1 \<and>
         snd (send_to_daemon e socket_path command MAX_CMD_LEN) \<noteq> None \<and>
         length (filter is_recv (fst (main e))) = 1 \<and>
         (recv_ret e \<le> 0 \<longrightarrow>
            snd (send_to_daemon e socket_path command MAX_CMD_LEN) = Some [] \<and>
            snd (main e) = 0 \<and>
            filter is_presentation (fst (main e)) = [])"
proof -
  let ?resp = "if 0 < recv_ret e then cstr (take (nat (recv_ret e)) (recv_data e)) else []"
  let ?evs = "[Socket (socket_ret e),
               Connect (socket_ret e) (take (sun_path_size e - 1) socket_path),
               Setsockopt (socket_ret e) RECV_TIMEOUT_SEC,
               Send (socket_ret e) (cstr (snprintf MAX_CMD_LEN (command @ [LF]))),
               Recv (socket_ret e) (MAX_CMD_LEN - 1), Close (socket_ret e)]"
  have sd: "send_to_daemon e socket_path command MAX_CMD_LEN = (?evs, Some ?resp)"
    using assms(5-7) by (rule send_to_daemon_ok)
  have m: "main e = (Access socket_path # ?evs @ fst (check_response ?resp),
                     snd (check_response ?resp))"
    using assms(1-4) sd by (rule main_after_relay)
  have nr: "filter is_recv (fst (check_response ?resp)) = []"
    using check_response_cases [of ?resp] by auto
  have empty: "check_response [] = ([], 0)"
    by (rule check_response_no_marker) (simp add: ERROR_MARKER_def)
  show ?thesis
    using nr empty by (simp add: sd m)
qed

text \<open>
  C6, witness: the sample environment in which \<^verbatim>\<open>recv\<close> returns \<open>-1\<close> (a timeout).
\<close>

theorem single_recv_and_empty_response_is_success_witness:
  "length (filter is_recv (fst (send_to_daemon ((sample_env sample_file []) \<lparr> recv_ret := - 1 \<rparr>)
      ''/Users/me/.cwm/cwm.sock'' ''focus next'' MAX_CMD_LEN))) = 1 \<and>
   snd (send_to_daemon ((sample_env sample_file []) \<lparr> recv_ret := - 1 \<rparr>)
      ''/Users/me/.cwm/cwm.sock'' ''focus next'' MAX_CMD_LEN) = Some [] \<and>
   length (filter is_recv (fst (main ((sample_env sample_file []) \<lparr> recv_ret := - 1 \<rparr>)))) = 1 \<and>
   snd (main ((sample_env sample_file []) \<lparr> recv_ret := - 1 \<rparr>)) = 0 \<and>
   filter is_presentation (fst (main ((sample_env sample_file []) \<lparr> recv_ret := - 1 \<rparr>))) = []"
proof -
  let ?e = "(sample_env sample_file []) \<lparr> recv_ret := - 1 \<rparr>"
  have h1: "get_command_file_path ?e MAX_PATH_LEN =
              Some ''/Apps/Focus.app/Contents/MacOS/cwm_command.txt''"
    by (simp add: recv_update_cmd_path sample_cmd_path)
  have h2: "read_command ?e ''/Apps/Focus.app/Contents/MacOS/cwm_command.txt'' MAX_CMD_LEN =
              Some ''focus next''"
    by (simp add: recv_update_read sample_read)
  have h3: "get_socket_path ?e MAX_PATH_LEN = Some ''/Users/me/.cwm/cwm.sock''"
    by (simp add: recv_update_socket_path sample_socket_path)
  have h4: "access_F_OK ?e ''/Users/me/.cwm/cwm.sock'' = 0"
    by (simp add: sample_env_def)
  have h5: "0 \<le> socket_ret ?e" "0 \<le> connect_ret ?e" "0 \<le> send_ret ?e" "recv_ret ?e \<le> 0"
    by (simp_all add: sample_env_def)
  show ?thesis
    using single_recv_and_empty_response_is_success [OF h1 h2 h3 h4 h5(1-3)] h5(4)
    by simp
qed

subsection \<open>C7: the socket file is missing\<close>

text \<open>
  C7: when the command and the socket path were obtained and \<^verbatim>\<open>access\<close> reports that
  the socket path does not exist, the run consists of the probe and one blocking dialog
  whose message contains the texts \<^verbatim>\<open>cwm daemon start\<close> and \<^verbatim>\<open>cwm daemon install\<close>; the
  exit code is 1 and no socket call is made.
\<close>

theorem missing_socket_reports_daemon_not_running:
  assumes "get_command_file_path e MAX_PATH_LEN = Some cmd_path"
    and "read_command e cmd_path MAX_CMD_LEN = Some command"
    and "get_socket_path e MAX_PATH_LEN = Some socket_path"
    and "access_F_OK e socket_path \<noteq> 0"
  shows "main e = ([Access socket_path, ShowErrorDialog ERROR_TITLE MSG_NOT_RUNNING], 1) \<and>
         sublist ''cwm daemon start'' MSG_NOT_RUNNING \<and>
         sublist ''cwm daemon install'' MSG_NOT_RUNNING \<and>
         filter is_socket_op (fst (main e)) = []"
  using assms remediation_start remediation_install by (simp add: main_def)

text \<open>
  C7, witness: the sample environment in which \<^verbatim>\<open>access\<close> fails for every path.
\<close>

theorem missing_socket_reports_daemon_not_running_witness:
  "main ((sample_env sample_file []) \<lparr> access_F_OK := (\<lambda>p. - 1) \<rparr>) =
     ([Access ''/Users/me/.cwm/cwm.sock'', ShowErrorDialog ERROR_TITLE MSG_NOT_RUNNING], 1) \<and>
   sublist ''cwm daemon start'' MSG_NOT_RUNNING \<and>
   sublist ''cwm daemon install'' MSG_NOT_RUNNING \<and>
   filter is_socket_op
     (fst (main ((sample_env sample_file []) \<lparr> access_F_OK := (\<lambda>p. - 1) \<rparr>))) = []"
  by (rule missing_socket_reports_daemon_not_running
        [where cmd_path = "''/Apps/Focus.app/Contents/MacOS/cwm_command.txt''"
           and command = "''focus next''"])
     (simp_all add: access_update_cmd_path access_update_read access_update_socket_path
        sample_cmd_path sample_read sample_socket_path)

subsection \<open>C8: the socket is closed on every path\<close>

text \<open>
  C8: for every environment, that is on every path through \<open>send_to_daemon\<close>, no
  descriptor is open after its trace. When \<^verbatim>\<open>socket\<close> returned a descriptor, the last
  call of the relay client is the \<^verbatim>\<open>close\<close> of that descriptor, and it is closed once;
  when \<^verbatim>\<open>socket\<close> failed there is nothing to close and nothing else is called.
\<close>

theorem send_to_daemon_closes_socket:
  "open_fds (fst (send_to_daemon e sp cmd n)) {} = {} \<and>
   (0 \<le> socket_ret e \<longrightarrow>
      last (fst (send_to_daemon e sp cmd n)) = Close (socket_ret e) \<and>
      length (filter (\<lambda>ev. ev = Close (socket_ret e)) (fst (send_to_daemon e sp cmd n))) = 1) \<and>
   (socket_ret e < 0 \<longrightarrow> fst (send_to_daemon e sp cmd n) = [Socket (socket_ret e)])"
  by (simp add: send_to_daemon_def Let_def)

text \<open>
  C8, witness: the connect failure, the send failure, the receive failure, the successful
  exchange, and the failure of \<^verbatim>\<open>socket\<close> itself.
\<close>

theorem send_to_daemon_closes_socket_witness:
  "open_fds (fst (send_to_daemon ((sample_env sample_file []) \<lparr> connect_ret := - 1 \<rparr>)
       ''/Users/me/.cwm/cwm.sock'' ''focus next'' MAX_CMD_LEN)) {} = {} \<and>
   last (fst (send_to_daemon ((sample_env sample_file []) \<lparr> connect_ret := - 1 \<rparr>)
       ''/Users/me/.cwm/cwm.sock'' ''focus next'' MAX_CMD_LEN)) = Close 3 \<and>
   last (fst (send_to_daemon ((sample_env sample_file []) \<lparr> send_ret := - 1 \<rparr>)
       ''/Users/me/.cwm/cwm.sock'' ''focus next'' MAX_CMD_LEN)) = Close 3 \<and>
   last (fst (send_to_daemon ((sample_env sample_file []) \<lparr> recv_ret := - 1 \<rparr>)
       ''/Users/me/.cwm/cwm.sock'' ''focus next'' MAX_CMD_LEN)) = Close 3 \<and>
   last (fst (send_to_daemon (sample_env sample_file [])
       ''/Users/me/.cwm/cwm.sock'' ''focus next'' MAX_CMD_LEN)) = Close 3 \<and>
   fst (send_to_daemon ((sample_env sample_file []) \<lparr> socket_ret := - 1 \<rparr>)
       ''/Users/me/.cwm/cwm.sock'' ''focus next'' MAX_CMD_LEN) = [Socket (- 1)]"
  using
    send_to_daemon_closes_socket [of "(sample_env sample_file []) \<lparr> connect_ret := - 1 \<rparr>"
      "''/Users/me/.cwm/cwm.sock''" "''focus next''" MAX_CMD_LEN]
    send_to_daemon_closes_socket [of "(sample_env sample_file []) \<lparr> send_ret := - 1 \<rparr>"
      "''/Users/me/.cwm/cwm.sock''" "''focus next''" MAX_CMD_LEN]
    send_to_daemon_closes_socket [of "(sample_env sample_file []) \<lparr> recv_ret := - 1 \<rparr>"
      "''/Users/me/.cwm/cwm.sock''" "''focus next''" MAX_CMD_LEN]
    send_to_daemon_closes_socket [of "sample_env sample_file []"
      "''/Users/me/.cwm/cwm.sock''" "''focus next''" MAX_CMD_LEN]
    send_to_daemon_closes_socket [of "(sample_env sample_file []) \<lparr> socket_ret := - 1 \<rparr>"
      "''/Users/me/.cwm/cwm.sock''" "''focus next''" MAX_CMD_LEN]
  by (simp add: sample_env_def)

subsection \<open>C9: the generic message\<close>



subsection \<open>C10: at most one presentation call\<close>

text \<open>
  C10: every run of \<open>main\<close> ends with exit code 0 or 1 and makes at most one
  presentation call: exactly one when the exit code is 1, none when it is 0.
\<close>

theorem one_presentation_exactly_when_exit_1:
  "(snd (main e) = 0 \<or> snd (main e) = 1) \<and>
   length (filter is_presentation (fst (main e))) \<le> 1 \<and>
   (snd (main e) = 1 \<longrightarrow> length (filter is_presentation (fst (main e))) = 1) \<and>
   (snd (main e) = 0 \<longrightarrow> filter is_presentation (fst (main e)) = [])"
  using main_presentations [of e] by auto

text \<open>
  C10, witness: a run with an empty response (exit code 0) and a run in which the daemon
  reports an error (exit code 1).
\<close>

theorem one_presentation_exactly_when_exit_1_witness:
  \<open>snd (main (sample_env sample_file [])) = 0 \<and>
   filter is_presentation (fst (main (sample_env sample_file []))) = [] \<and>
   snd (main (sample_env sample_file ''{"error": true}'')) = 1 \<and>
   length (filter is_presentation (fst (main (sample_env sample_file ''{"error": true}'')))) = 1\<close>
proof -
  have a: "main (sample_env sample_file []) =
      (Access ''/Users/me/.cwm/cwm.sock'' #
       [Socket 3, Connect 3 ''/Users/me/.cwm/cwm.sock'', Setsockopt 3 RECV_TIMEOUT_SEC,
        Send 3 (''focus next'' @ [LF]), Recv 3 4095, Close 3] @ fst (check_response []),
       snd (check_response []))"
    by (rule main_after_relay [OF sample_cmd_path sample_read sample_socket_path sample_access
          sample_send_empty])
  have "check_response [] = ([], 0)"
    by (rule check_response_no_marker) (simp add: ERROR_MARKER_def)
  with a have zero: "snd (main (sample_env sample_file [])) = 0"
    by simp
  have sd: \<open>send_to_daemon (sample_env sample_file ''{"error": true}'')
      ''/Users/me/.cwm/cwm.sock'' ''focus next'' MAX_CMD_LEN =
     ([Socket 3, Connect 3 ''/Users/me/.cwm/cwm.sock'', Setsockopt 3 RECV_TIMEOUT_SEC,
       Send 3 (''focus next'' @ [LF]), Recv 3 4095, Close 3], Some ''{"error": true}'')\<close>
    by (rule sample_send) (simp add: NUL_def)
  have b: \<open>snd (main (sample_env sample_file ''{"error": true}'')) =
      snd (check_response ''{"error": true}'')\<close>
    by (simp add: main_after_relay [OF sample_cmd_path sample_read sample_socket_path
          sample_access sd])
  have \<open>sublist ERROR_MARKER ''{"error": true}''\<close>
    by (simp add: ERROR_MARKER_def DQ_def sublist_code)
  then have \<open>snd (check_response ''{"error": true}'') = 1\<close>
    using check_response_error by fastforce
  with b have one: \<open>snd (main (sample_env sample_file ''{"error": true}'')) = 1\<close>
    by simp
  show ?thesis
    using zero one
      one_presentation_exactly_when_exit_1 [of "sample_env sample_file []"]
      one_presentation_exactly_when_exit_1 [of \<open>sample_env sample_file ''{"error": true}''\<close>]
    by simp
qed

end
